theory Spec2Isabelle
  imports Main "HOL-Library.Word"
begin

section \<open>flask\_saml2: parsing possibly-signed XML documents\<close>

text \<open>
  A shallow embedding of \<^verbatim>\<open>flask_saml2/xml_parser.py\<close> and of the parts of
  \<^verbatim>\<open>flask_saml2/utils.py\<close> that the properties below are about.

  The module calls three things it does not define: the hardened loader
  \<^verbatim>\<open>defusedxml.lxml.fromstring\<close>, the verifier \<^verbatim>\<open>signxml.XMLVerifier().verify\<close> and the
  method \<^verbatim>\<open>is_signed\<close>, which every subclass has to supply. They are parameters of the
  model, collected in a record; each returns either a value or the exception it raises.
\<close>

subsection \<open>Exceptions\<close>

text \<open>
  \<open>LxmlError\<close> stands for \<^verbatim>\<open>lxml.etree.Error\<close> and its subclasses, the only exceptions
  that \<^verbatim>\<open>parse_request\<close> catches. \<open>Raised\<close> is any other exception of a collaborator;
  the module never catches those. The payload \<open>'x\<close> is whatever the collaborator
  attaches to its exception.
\<close>

datatype 'x exception =
    LxmlError 'x
  | Raised 'x
  | ValueError string
  | NotImplementedError
  | AttributeError string
  | UnicodeDecodeError
  | UnicodeEncodeError

subsection \<open>Documents, parser objects and collaborators\<close>

text \<open>\<^verbatim>\<open>XmlNode\<close> is an alias of lxml's element class: a tag, attributes, children.\<close>

datatype XmlNode =
  Element (tag: string) (attrib: "(string \<times> string) list") (children: "XmlNode list")

text \<open>All elements of a tree in document order, the root first (lxml's \<^verbatim>\<open>iter()\<close>).\<close>

fun iter :: "XmlNode \<Rightarrow> XmlNode list" where
  "iter (Element t a cs) = Element t a cs # concat (map iter cs)"

text \<open>The attributes \<^verbatim>\<open>XmlParser.__init__\<close> sets on the instance.\<close>

record 'c XmlParser =
  xml_string :: string
  xml_tree :: XmlNode
  certificate :: "'c option"

text \<open>What \<^verbatim>\<open>XMLVerifier().verify\<close> returns.\<close>

record VerifyResult =
  signed_data :: string
  signed_xml :: XmlNode
  signature_xml :: XmlNode

record ('c, 'x) collaborators =
  fromstring :: "string \<Rightarrow> 'x exception + XmlNode"
  is_signed :: "'c XmlParser \<Rightarrow> 'x exception + bool"
  verify :: "XmlNode \<Rightarrow> 'c option \<Rightarrow> 'x exception + VerifyResult"

text \<open>
  The module logger. \<^verbatim>\<open>Logger.exception(message)\<close> appends one record: the message and
  the exception being handled.
\<close>

type_synonym 'x log = "(string \<times> 'x exception) list"

subsection \<open>\<^verbatim>\<open>XmlParser\<close>\<close>

text \<open>The class attribute \<^verbatim>\<open>certificate = None\<close>, read when the instance has none.\<close>

definition XmlParser_certificate :: "'c option" where
  "XmlParser_certificate = None"

text \<open>
  \<^verbatim>\<open>parse_request\<close>: an \<^verbatim>\<open>lxml.etree.Error\<close> is logged and replaced by a
  \<^verbatim>\<open>ValueError\<close> with a literal message; anything else the loader raises passes through.
\<close>

definition parse_request ::
  "('c, 'x) collaborators \<Rightarrow> string \<Rightarrow> 'x log \<Rightarrow> ('x exception + XmlNode) \<times> 'x log" where
  "parse_request env xml_str lg =
     (case fromstring env xml_str of
        Inr tree \<Rightarrow> (Inr tree, lg)
      | Inl (LxmlError e) \<Rightarrow>
          (let message = ''Could not parse request XML'' in
           (Inl (ValueError message), lg @ [(message, LxmlError e)]))
      | Inl other \<Rightarrow> (Inl other, lg))"

text \<open>The base class's \<^verbatim>\<open>is_signed\<close>, which subclasses replace.\<close>

definition XmlParser_is_signed :: "'c XmlParser \<Rightarrow> 'x exception + bool" where
  "XmlParser_is_signed self = Inl NotImplementedError"

text \<open>\<^verbatim>\<open>parse_signed\<close>: the \<^verbatim>\<open>signed_xml\<close> of the verifier's result; no \<^verbatim>\<open>try\<close>.\<close>

definition parse_signed ::
  "('c, 'x) collaborators \<Rightarrow> XmlNode \<Rightarrow> 'c option \<Rightarrow> 'x exception + XmlNode" where
  "parse_signed env tree cert =
     (case verify env tree cert of
        Inl e \<Rightarrow> Inl e
      | Inr result \<Rightarrow> Inr (signed_xml result))"

text \<open>
  \<^verbatim>\<open>__init__\<close>. The instance attribute \<^verbatim>\<open>certificate\<close> is set only for an argument
  that is not \<^verbatim>\<open>None\<close>; otherwise \<^verbatim>\<open>self.certificate\<close> reads the class attribute.
  The result is the constructed object, or the exception that left the constructor.
\<close>

definition XmlParser_init ::
  "('c, 'x) collaborators \<Rightarrow> string \<Rightarrow> 'c option \<Rightarrow> 'x log \<Rightarrow>
     ('x exception + 'c XmlParser) \<times> 'x log" where
  "XmlParser_init env xml_str cert lg =
     (let self_certificate = (case cert of Some c \<Rightarrow> Some c | None \<Rightarrow> XmlParser_certificate) in
      case parse_request env xml_str lg of
        (Inl e, lg') \<Rightarrow> (Inl e, lg')
      | (Inr tree, lg') \<Rightarrow>
          (let self = \<lparr>xml_string = xml_str, xml_tree = tree, certificate = self_certificate\<rparr> in
           case is_signed env self of
             Inl e \<Rightarrow> (Inl e, lg')
           | Inr False \<Rightarrow> (Inr self, lg')
           | Inr True \<Rightarrow>
               (case parse_signed env (xml_tree self) (certificate self) of
                  Inl e \<Rightarrow> (Inl e, lg')
                | Inr signed_tree \<Rightarrow> (Inr (self\<lparr>xml_tree := signed_tree\<rparr>), lg'))))"

text \<open>
  The query surface. \<^verbatim>\<open>NAMESPACE_MAP\<close> is imported from
  \<^verbatim>\<open>flask_saml2.xml_templates\<close> and lxml's \<^verbatim>\<open>xpath\<close> method evaluates the query; both
  are parameters here.
\<close>

definition get_namespace_map :: "'ns \<Rightarrow> 'c XmlParser \<Rightarrow> 'ns" where
  "get_namespace_map NAMESPACE_MAP self = NAMESPACE_MAP"

definition XmlParser_xpath ::
  "(XmlNode \<Rightarrow> string \<Rightarrow> 'ns \<Rightarrow> 'r) \<Rightarrow> 'ns \<Rightarrow> 'c XmlParser \<Rightarrow> XmlNode \<Rightarrow> string \<Rightarrow> 'r" where
  "XmlParser_xpath xpath NAMESPACE_MAP self base xpath_statement =
     xpath base xpath_statement (get_namespace_map NAMESPACE_MAP self)"

definition XmlParser_xpath_xml_tree ::
  "(XmlNode \<Rightarrow> string \<Rightarrow> 'ns \<Rightarrow> 'r) \<Rightarrow> 'ns \<Rightarrow> 'c XmlParser \<Rightarrow> string \<Rightarrow> 'r" where
  "XmlParser_xpath_xml_tree xpath NAMESPACE_MAP self xpath_statement =
     XmlParser_xpath xpath NAMESPACE_MAP self (xml_tree self) xpath_statement"

subsection \<open>\<^verbatim>\<open>cached_property\<close>\<close>

















subsection \<open>Certificates as strings\<close>

text \<open>
  Python's \<^verbatim>\<open>bytes\<close> are lists of octets and its \<^verbatim>\<open>str\<close> lists of code points.
  \<^verbatim>\<open>bytes.decode('utf-8')\<close> and \<^verbatim>\<open>str.encode('utf-8')\<close> are the strict codec: no
  overlong forms, no surrogates, nothing above U+10FFFF.
\<close>

type_synonym bytes = "8 word list"
type_synonym str = "nat list"

definition continuation :: "nat \<Rightarrow> bool" where
  "continuation b = (0x80 \<le> b \<and> b < 0xC0)"

text \<open>The range allowed for the second octet, which depends on the first.\<close>

definition second_low :: "nat \<Rightarrow> nat" where
  "second_low b0 = (if b0 = 0xE0 then 0xA0 else if b0 = 0xF0 then 0x90 else 0x80)"

definition second_high :: "nat \<Rightarrow> nat" where
  "second_high b0 = (if b0 = 0xED then 0x9F else if b0 = 0xF4 then 0x8F else 0xBF)"

fun utf8_decode :: "nat list \<Rightarrow> nat list option" where
  "utf8_decode [] = Some []"
| "utf8_decode (b0 # bs) =
     (if b0 < 0x80 then map_option (Cons b0) (utf8_decode bs)
      else if b0 < 0xC2 then None
      else if b0 < 0xE0 then
        (case bs of
           b1 # r \<Rightarrow>
             if continuation b1
             then map_option (Cons ((b0 - 0xC0) * 0x40 + (b1 - 0x80))) (utf8_decode r)
             else None
         | _ \<Rightarrow> None)
      else if b0 < 0xF0 then
        (case bs of
           b1 # b2 # r \<Rightarrow>
             if second_low b0 \<le> b1 \<and> b1 \<le> second_high b0 \<and> continuation b2
             then map_option
                    (Cons ((b0 - 0xE0) * 0x1000 + (b1 - 0x80) * 0x40 + (b2 - 0x80)))
                    (utf8_decode r)
             else None
         | _ \<Rightarrow> None)
      else if b0 < 0xF5 then
        (case bs of
           b1 # b2 # b3 # r \<Rightarrow>
             if second_low b0 \<le> b1 \<and> b1 \<le> second_high b0 \<and> continuation b2 \<and> continuation b3
             then map_option
                    (Cons ((b0 - 0xF0) * 0x40000 + (b1 - 0x80) * 0x1000
                           + (b2 - 0x80) * 0x40 + (b3 - 0x80)))
                    (utf8_decode r)
             else None
         | _ \<Rightarrow> None)
      else None)"

definition encode_code_point :: "nat \<Rightarrow> nat list option" where
  "encode_code_point cp =
     (if cp < 0x80 then Some [cp]
      else if cp < 0x800 then Some [0xC0 + cp div 0x40, 0x80 + cp mod 0x40]
      else if 0xD800 \<le> cp \<and> cp < 0xE000 then None
      else if cp < 0x10000 then
        Some [0xE0 + cp div 0x1000, 0x80 + cp div 0x40 mod 0x40, 0x80 + cp mod 0x40]
      else if cp < 0x110000 then
        Some [0xF0 + cp div 0x40000, 0x80 + cp div 0x1000 mod 0x40,
              0x80 + cp div 0x40 mod 0x40, 0x80 + cp mod 0x40]
      else None)"

fun utf8_encode :: "nat list \<Rightarrow> nat list option" where
  "utf8_encode [] = Some []"
| "utf8_encode (cp # cps) =
     (case encode_code_point cp of
        None \<Rightarrow> None
      | Some bs \<Rightarrow> map_option (append bs) (utf8_encode cps))"

definition bytes_decode :: "bytes \<Rightarrow> 'x exception + str" where
  "bytes_decode b =
     (case utf8_decode (map unat b) of None \<Rightarrow> Inl UnicodeDecodeError | Some s \<Rightarrow> Inr s)"

definition str_encode :: "str \<Rightarrow> 'x exception + bytes" where
  "str_encode s =
     (case utf8_encode s of None \<Rightarrow> Inl UnicodeEncodeError | Some b \<Rightarrow> Inr (map of_nat b))"

text \<open>
  \<^verbatim>\<open>cryptography\<close>'s \<^verbatim>\<open>serialization.Encoding\<close>, and the two calls into
  \<^verbatim>\<open>cryptography.x509\<close> that the module makes; \<open>'cert\<close> is \<^verbatim>\<open>x509.Certificate\<close>.
\<close>

datatype Encoding = PEM | DER | OpenSSH | Raw | X962 | SMIME

record ('cert, 'x) x509 =
  public_bytes :: "'cert \<Rightarrow> Encoding \<Rightarrow> bytes"
  load_pem_x509_certificate :: "bytes \<Rightarrow> 'x exception + 'cert"

definition certificate_to_string :: "('cert, 'x) x509 \<Rightarrow> 'cert \<Rightarrow> 'x exception + str" where
  "certificate_to_string lib cert =
     (let pem_bytes = public_bytes lib cert PEM in bytes_decode pem_bytes)"

text \<open>The \<^verbatim>\<open>format\<close> argument is accepted and not used.\<close>

definition certificate_from_string ::
  "('cert, 'x) x509 \<Rightarrow> str \<Rightarrow> Encoding \<Rightarrow> 'x exception + 'cert" where
  "certificate_from_string lib cert_str format =
     (case str_encode cert_str of
        Inl e \<Rightarrow> Inl e
      | Inr b \<Rightarrow> load_pem_x509_certificate lib b)"

subsection \<open>Example collaborators and inputs\<close>

text \<open>
  A response whose signature covers the first assertion only, and a request without a
  signature. A string with an encoding declaration is refused by lxml with a plain
  \<^verbatim>\<open>ValueError\<close> before any parsing; any other string is a syntax error. The example
  verifier accepts the signature under the certificate \<open>''idp.pem''\<close> and when no
  certificate is passed, and rejects it under any other.
\<close>

definition signed_response :: XmlNode where
  "signed_response =
     Element ''Response'' []
       [Element ''Signature'' [] [],
        Element ''Assertion'' [(''ID'', ''a1'')] [],
        Element ''Assertion'' [(''ID'', ''forged'')] []]"

definition plain_request :: XmlNode where
  "plain_request = Element ''AuthnRequest'' [] []"

definition example_result :: VerifyResult where
  "example_result =
     \<lparr>signed_data = ''<Assertion ID=a1/>'',
      signed_xml = Element ''Assertion'' [(''ID'', ''a1'')] [],
      signature_xml = Element ''Signature'' [] []\<rparr>"

definition declared_unclosed :: string where
  "declared_unclosed = ''<?xml version='1.0' encoding='utf-8'?><a>''"

definition lxml_declaration_message :: string where
  "lxml_declaration_message =
     ''Unicode strings with encoding declaration are not supported. ''
     @ ''Please use bytes input or XML fragments without declaration.''"

definition example_env :: "(string, string) collaborators" where
  "example_env =
     \<lparr>fromstring = (\<lambda>s. if s = ''<Response>...</Response>'' then Inr signed_response
                         else if s = ''<AuthnRequest/>'' then Inr plain_request
                         else if s = declared_unclosed then Inl (ValueError lxml_declaration_message)
                         else Inl (LxmlError ''XMLSyntaxError'')),
      is_signed = (\<lambda>self. Inr (''Signature'' \<in> set (map tag (children (xml_tree self))))),
      verify = (\<lambda>t cert. if cert = Some ''idp.pem'' \<or> cert = None then Inr example_result
                           else Inl (Raised ''InvalidSignature''))\<rparr>"

text \<open>
  The same collaborators at a time when the verifier no longer accepts the certificate
  embedded in the response (it has expired, or has left the trust store): only the
  caller's certificate still verifies.
\<close>

definition later_env :: "(string, string) collaborators" where
  "later_env =
     example_env\<lparr>verify := (\<lambda>t cert. if cert = Some ''idp.pem'' then Inr example_result
                                       else Inl (Raised ''InvalidCertificate''))\<rparr>"



text \<open>A toy certificate library: a certificate is a number, written in unary.\<close>

definition example_x509 :: "(nat, string) x509" where
  "example_x509 =
     \<lparr>public_bytes = (\<lambda>c enc. replicate c 0x4D),
      load_pem_x509_certificate = (\<lambda>b. Inr (length b))\<rparr>"

subsection \<open>Notions used to state the properties\<close>


section \<open>Properties\<close>

subsection \<open>Auxiliary facts\<close>

lemma self_certificate:
  "(case cert of Some c \<Rightarrow> Some c | None \<Rightarrow> XmlParser_certificate) = cert"
  by (simp add: XmlParser_certificate_def split: option.split)

lemma parse_request_ok:
  "fromstring env doc = Inr tree \<Longrightarrow> parse_request env doc lg = (Inr tree, lg)"
  by (simp add: parse_request_def)

text \<open>What the constructor does with a document that parses and is signed.\<close>

lemma init_signed:
  assumes "fromstring env doc = Inr tree"
    and "is_signed env \<lparr>xml_string = doc, xml_tree = tree, certificate = cert\<rparr> = Inr True"
  shows "XmlParser_init env doc cert lg =
           (case verify env tree cert of
              Inl e \<Rightarrow> (Inl e, lg)
            | Inr result \<Rightarrow>
                (Inr \<lparr>xml_string = doc, xml_tree = signed_xml result, certificate = cert\<rparr>, lg))"
  using assms
  by (simp add: XmlParser_init_def self_certificate parse_request_ok parse_signed_def
        split: sum.split)

subsection \<open>Signed documents\<close>

text \<open>
  C1. When the document parses, \<^verbatim>\<open>is_signed\<close> holds and the verifier accepts the signature
  under the certificate the caller supplied, the constructor returns, and the parser's tree
  is the \<^verbatim>\<open>signed_xml\<close> of the verifier's result and nothing else: the elements of the
  tree are exactly the elements of \<^verbatim>\<open>signed_xml\<close>, so no element of the parsed document
  outside it is left in the tree.
\<close>

theorem signed_document_replaced_by_signed_xml:
  assumes "fromstring env doc = Inr tree"
    and "is_signed env \<lparr>xml_string = doc, xml_tree = tree, certificate = Some cert\<rparr> = Inr True"
    and "verify env tree (Some cert) = Inr result"
  shows "XmlParser_init env doc (Some cert) lg =
           (Inr \<lparr>xml_string = doc, xml_tree = signed_xml result, certificate = Some cert\<rparr>, lg)
         \<and> (\<forall>p. fst (XmlParser_init env doc (Some cert) lg) = Inr p \<longrightarrow>
                set (iter (xml_tree p)) = set (iter (signed_xml result)))"
  using init_signed [OF assms(1,2), of lg] assms(3) by auto

text \<open>
  On the example response the forged second assertion is in the parsed document and not in
  the parser's tree.
\<close>

theorem signed_document_replaced_by_signed_xml_witness:
  "fromstring example_env ''<Response>...</Response>'' = Inr signed_response
   \<and> is_signed example_env
        \<lparr>xml_string = ''<Response>...</Response>'', xml_tree = signed_response,
         certificate = Some ''idp.pem''\<rparr> = Inr True
   \<and> verify example_env signed_response (Some ''idp.pem'') = Inr example_result
   \<and> XmlParser_init example_env ''<Response>...</Response>'' (Some ''idp.pem'') [] =
       (Inr \<lparr>xml_string = ''<Response>...</Response>'',
             xml_tree = Element ''Assertion'' [(''ID'', ''a1'')] [],
             certificate = Some ''idp.pem''\<rparr>, [])
   \<and> Element ''Assertion'' [(''ID'', ''forged'')] [] \<in> set (iter signed_response)
   \<and> Element ''Assertion'' [(''ID'', ''forged'')] []
       \<notin> set (iter (Element ''Assertion'' [(''ID'', ''a1'')] []))"
  using signed_document_replaced_by_signed_xml
    [of example_env "''<Response>...</Response>''" signed_response "''idp.pem''" example_result "[]"]
  by (simp add: example_env_def signed_response_def example_result_def)

text \<open>
  C2. When the document parses and \<^verbatim>\<open>is_signed\<close> holds but the verifier raises, the
  constructor raises that same exception: no parser object exists afterwards, neither one
  with the parsed tree nor one with a verified tree. This holds for every certificate
  argument, \<^verbatim>\<open>None\<close> included.
\<close>

theorem failed_verification_raises:
  assumes "fromstring env doc = Inr tree"
    and "is_signed env \<lparr>xml_string = doc, xml_tree = tree, certificate = cert\<rparr> = Inr True"
    and "verify env tree cert = Inl e"
  shows "XmlParser_init env doc cert lg = (Inl e, lg)"
  using init_signed [OF assms(1,2), of lg] assms(3) by simp

theorem failed_verification_raises_witness:
  "fromstring example_env ''<Response>...</Response>'' = Inr signed_response
   \<and> is_signed example_env
        \<lparr>xml_string = ''<Response>...</Response>'', xml_tree = signed_response,
         certificate = Some ''other.pem''\<rparr> = Inr True
   \<and> verify example_env signed_response (Some ''other.pem'') = Inl (Raised ''InvalidSignature'')
   \<and> XmlParser_init example_env ''<Response>...</Response>'' (Some ''other.pem'') [] =
       (Inl (Raised ''InvalidSignature''), [])"
  using failed_verification_raises
    [of example_env "''<Response>...</Response>''" signed_response "Some ''other.pem''"
        "Raised ''InvalidSignature''" "[]"]
  by (simp add: example_env_def signed_response_def)

text \<open>
  C6 as the code has it. With no certificate from the caller the verifier is still called,
  with \<^verbatim>\<open>x509_cert=None\<close>, so that it has only the certificate embedded in the document
  to verify with. The result is surfaced in the same way as with a caller's certificate:
  the verifier's exception leaves the constructor, and on success the tree is replaced by
  \<^verbatim>\<open>signed_xml\<close>. When the verifier returns the same result in both cases, the two
  parsers differ in their \<^verbatim>\<open>certificate\<close> attribute and in nothing else.
\<close>

theorem embedded_certificate_verification:
  assumes "fromstring env doc = Inr tree"
    and "is_signed env \<lparr>xml_string = doc, xml_tree = tree, certificate = None\<rparr> = Inr True"
  shows "XmlParser_init env doc None lg =
           (case verify env tree None of
              Inl e \<Rightarrow> (Inl e, lg)
            | Inr result \<Rightarrow>
                (Inr \<lparr>xml_string = doc, xml_tree = signed_xml result, certificate = None\<rparr>, lg))
         \<and> (\<forall>c. is_signed env \<lparr>xml_string = doc, xml_tree = tree, certificate = Some c\<rparr> = Inr True
               \<longrightarrow> XmlParser_init env doc (Some c) lg =
                     (case verify env tree (Some c) of
                        Inl e \<Rightarrow> (Inl e, lg)
                      | Inr result \<Rightarrow>
                          (Inr \<lparr>xml_string = doc, xml_tree = signed_xml result,
                                certificate = Some c\<rparr>, lg)))
         \<and> (\<forall>c result.
               is_signed env \<lparr>xml_string = doc, xml_tree = tree, certificate = Some c\<rparr> = Inr True
               \<and> verify env tree None = Inr result \<and> verify env tree (Some c) = Inr result
               \<longrightarrow> (\<exists>p. XmlParser_init env doc None lg = (Inr p, lg)
                        \<and> XmlParser_init env doc (Some c) lg = (Inr (p\<lparr>certificate := Some c\<rparr>), lg)))"
proof -
  have none: "XmlParser_init env doc None lg =
      (case verify env tree None of
         Inl e \<Rightarrow> (Inl e, lg)
       | Inr result \<Rightarrow>
           (Inr \<lparr>xml_string = doc, xml_tree = signed_xml result, certificate = None\<rparr>, lg))"
    using assms by (rule init_signed)
  have some: "XmlParser_init env doc (Some c) lg =
      (case verify env tree (Some c) of
         Inl e \<Rightarrow> (Inl e, lg)
       | Inr result \<Rightarrow>
           (Inr \<lparr>xml_string = doc, xml_tree = signed_xml result, certificate = Some c\<rparr>, lg))"
    if "is_signed env \<lparr>xml_string = doc, xml_tree = tree, certificate = Some c\<rparr> = Inr True" for c
    using assms(1) that by (rule init_signed)
  have both: "\<exists>p. XmlParser_init env doc None lg = (Inr p, lg)
      \<and> XmlParser_init env doc (Some c) lg = (Inr (p\<lparr>certificate := Some c\<rparr>), lg)"
    if "is_signed env \<lparr>xml_string = doc, xml_tree = tree, certificate = Some c\<rparr> = Inr True"
      and "verify env tree None = Inr result" and "verify env tree (Some c) = Inr result"
    for c result
    using none some [OF that(1)] that(2,3) by simp
  from none some both show ?thesis by blast
qed

theorem embedded_certificate_verification_witness:
  "fromstring example_env ''<Response>...</Response>'' = Inr signed_response
   \<and> is_signed example_env
        \<lparr>xml_string = ''<Response>...</Response>'', xml_tree = signed_response,
         certificate = None\<rparr> = Inr True
   \<and> verify example_env signed_response None = Inr example_result
   \<and> verify example_env signed_response (Some ''idp.pem'') = Inr example_result
   \<and> XmlParser_init example_env ''<Response>...</Response>'' None [] =
       (Inr \<lparr>xml_string = ''<Response>...</Response>'',
             xml_tree = Element ''Assertion'' [(''ID'', ''a1'')] [], certificate = None\<rparr>, [])
   \<and> XmlParser_init example_env ''<Response>...</Response>'' (Some ''idp.pem'') [] =
       (Inr \<lparr>xml_string = ''<Response>...</Response>'',
             xml_tree = Element ''Assertion'' [(''ID'', ''a1'')] [],
             certificate = Some ''idp.pem''\<rparr>, [])"
proof -
  have parsed: "fromstring example_env ''<Response>...</Response>'' = Inr signed_response"
    by (simp add: example_env_def)
  have sig: "is_signed example_env
      \<lparr>xml_string = ''<Response>...</Response>'', xml_tree = signed_response, certificate = c\<rparr>
      = Inr True" for c
    by (simp add: example_env_def signed_response_def)
  have v0: "verify example_env signed_response None = Inr example_result"
    and v1: "verify example_env signed_response (Some ''idp.pem'') = Inr example_result"
    by (simp_all add: example_env_def)
  note t = embedded_certificate_verification [OF parsed sig, of "[]"]
  from t v0 have a: "XmlParser_init example_env ''<Response>...</Response>'' None [] =
       (Inr \<lparr>xml_string = ''<Response>...</Response>'',
             xml_tree = Element ''Assertion'' [(''ID'', ''a1'')] [], certificate = None\<rparr>, [])"
    by (simp add: example_result_def)
  from t sig v0 v1 obtain p where
    "XmlParser_init example_env ''<Response>...</Response>'' None [] = (Inr p, [])"
    "XmlParser_init example_env ''<Response>...</Response>'' (Some ''idp.pem'') [] =
       (Inr (p\<lparr>certificate := Some ''idp.pem''\<rparr>), [])"
    by blast
  with a have b: "XmlParser_init example_env ''<Response>...</Response>'' (Some ''idp.pem'') [] =
       (Inr \<lparr>xml_string = ''<Response>...</Response>'',
             xml_tree = Element ''Assertion'' [(''ID'', ''a1'')] [],
             certificate = Some ''idp.pem''\<rparr>, [])"
    by simp
  from parsed sig v0 v1 a b show ?thesis by simp
qed

text \<open>
  C6 as stated asks for an outcome of its own kind. On the example response the constructor
  returns normally both without a certificate and with the trusted one, and the two parsers
  hold the same tree.
\<close>

theorem embedded_certificate_same_outcome_counterexample:
  "fst (XmlParser_init example_env ''<Response>...</Response>'' None []) =
     Inr \<lparr>xml_string = ''<Response>...</Response>'',
          xml_tree = Element ''Assertion'' [(''ID'', ''a1'')] [], certificate = None\<rparr>
   \<and> fst (XmlParser_init example_env ''<Response>...</Response>'' (Some ''idp.pem'') []) =
     Inr \<lparr>xml_string = ''<Response>...</Response>'',
          xml_tree = Element ''Assertion'' [(''ID'', ''a1'')] [], certificate = Some ''idp.pem''\<rparr>
   \<and> map_sum (\<lambda>e. e) xml_tree (fst (XmlParser_init example_env ''<Response>...</Response>'' None []))
     = map_sum (\<lambda>e. e) xml_tree
         (fst (XmlParser_init example_env ''<Response>...</Response>'' (Some ''idp.pem'') []))"
  by (simp add: XmlParser_init_def parse_request_def parse_signed_def XmlParser_certificate_def
        example_env_def signed_response_def example_result_def)

subsection \<open>Unsigned and malformed documents\<close>

lemma init_unsigned:
  assumes "fromstring env doc = Inr tree"
    and "is_signed env \<lparr>xml_string = doc, xml_tree = tree, certificate = cert\<rparr> = Inr False"
  shows "XmlParser_init env doc cert lg =
           (Inr \<lparr>xml_string = doc, xml_tree = tree, certificate = cert\<rparr>, lg)"
  using assms
  by (simp add: XmlParser_init_def self_certificate parse_request_ok)

text \<open>
  C3. When the document parses and \<^verbatim>\<open>is_signed\<close> is false, the constructor returns a
  parser whose tree is the loader's tree, unchanged, and the verifier plays no part: the
  result is the same whatever the verifier is, also one that always raises.
\<close>

theorem unsigned_document_kept:
  assumes "fromstring env doc = Inr tree"
    and "is_signed env \<lparr>xml_string = doc, xml_tree = tree, certificate = cert\<rparr> = Inr False"
  shows "XmlParser_init env doc cert lg =
           (Inr \<lparr>xml_string = doc, xml_tree = tree, certificate = cert\<rparr>, lg)
         \<and> (\<forall>v. XmlParser_init (env\<lparr>verify := v\<rparr>) doc cert lg = XmlParser_init env doc cert lg)"
proof -
  have here: "XmlParser_init env doc cert lg =
      (Inr \<lparr>xml_string = doc, xml_tree = tree, certificate = cert\<rparr>, lg)"
    using assms by (rule init_unsigned)
  have "XmlParser_init (env\<lparr>verify := v\<rparr>) doc cert lg =
      (Inr \<lparr>xml_string = doc, xml_tree = tree, certificate = cert\<rparr>, lg)" for v
    using assms by (intro init_unsigned) simp_all
  with here show ?thesis by simp
qed

theorem unsigned_document_kept_witness:
  "fromstring example_env ''<AuthnRequest/>'' = Inr plain_request
   \<and> is_signed example_env
        \<lparr>xml_string = ''<AuthnRequest/>'', xml_tree = plain_request, certificate = Some ''idp.pem''\<rparr>
       = Inr False
   \<and> XmlParser_init example_env ''<AuthnRequest/>'' (Some ''idp.pem'') [] =
       (Inr \<lparr>xml_string = ''<AuthnRequest/>'', xml_tree = Element ''AuthnRequest'' [] [],
             certificate = Some ''idp.pem''\<rparr>, [])
   \<and> XmlParser_init (example_env\<lparr>verify := (\<lambda>t c. Inl (Raised ''InvalidSignature''))\<rparr>)
        ''<AuthnRequest/>'' (Some ''idp.pem'') [] =
       XmlParser_init example_env ''<AuthnRequest/>'' (Some ''idp.pem'') []"
proof -
  have parsed: "fromstring example_env ''<AuthnRequest/>'' = Inr plain_request"
    by (simp add: example_env_def)
  have unsigned: "is_signed example_env
      \<lparr>xml_string = ''<AuthnRequest/>'', xml_tree = plain_request, certificate = Some ''idp.pem''\<rparr>
      = Inr False"
    by (simp add: example_env_def plain_request_def)
  note kept = unsigned_document_kept [OF parsed unsigned, of "[]"]
  from kept have tree: "XmlParser_init example_env ''<AuthnRequest/>'' (Some ''idp.pem'') [] =
      (Inr \<lparr>xml_string = ''<AuthnRequest/>'', xml_tree = Element ''AuthnRequest'' [] [],
            certificate = Some ''idp.pem''\<rparr>, [])"
    by (simp add: plain_request_def)
  from kept have "XmlParser_init (example_env\<lparr>verify := (\<lambda>t c. Inl (Raised ''InvalidSignature''))\<rparr>)
      ''<AuthnRequest/>'' (Some ''idp.pem'') [] =
      XmlParser_init example_env ''<AuthnRequest/>'' (Some ''idp.pem'') []"
    by blast
  with parsed unsigned tree show ?thesis by simp
qed




subsection \<open>Repeated loads and queries\<close>

lemma init_outcome:
  "fst (XmlParser_init env doc cert lg) =
     (case fromstring env doc of
        Inl (LxmlError x) \<Rightarrow> Inl (ValueError ''Could not parse request XML'')
      | Inl e \<Rightarrow> Inl e
      | Inr tree \<Rightarrow>
          (case is_signed env \<lparr>xml_string = doc, xml_tree = tree, certificate = cert\<rparr> of
             Inl e \<Rightarrow> Inl e
           | Inr False \<Rightarrow> Inr \<lparr>xml_string = doc, xml_tree = tree, certificate = cert\<rparr>
           | Inr True \<Rightarrow>
               (case verify env tree cert of
                  Inl e \<Rightarrow> Inl e
                | Inr result \<Rightarrow>
                    Inr \<lparr>xml_string = doc, xml_tree = signed_xml result, certificate = cert\<rparr>)))"
  by (simp add: XmlParser_init_def parse_request_def parse_signed_def self_certificate Let_def
        split: sum.split exception.split bool.split)

text \<open>
  C7 as the code has it. Two loads of the same string with the same certificate may meet
  collaborators in different states; \<open>env\<close> and \<open>env'\<close> are the collaborators as they
  answer at the first and at the second load. When they give the same answers to what the
  constructor asks of them (the loader on the string, \<^verbatim>\<open>is_signed\<close> on the parser and, for a
  signed document, the verifier on the tree and the certificate), the two loads have the same
  outcome: the same exception, or parsers with the same string, tree and certificate.
  Nothing else enters: what the first load logged does not, and the module keeps no other
  state. The outcome is the function of those answers that the second part spells out.
\<close>

theorem load_twice_same_outcome:
  assumes "fromstring env' doc = fromstring env doc"
    and "\<forall>tree. fromstring env doc = Inr tree \<longrightarrow>
           is_signed env' \<lparr>xml_string = doc, xml_tree = tree, certificate = cert\<rparr>
           = is_signed env \<lparr>xml_string = doc, xml_tree = tree, certificate = cert\<rparr>"
    and "\<forall>tree. fromstring env doc = Inr tree
           \<and> is_signed env \<lparr>xml_string = doc, xml_tree = tree, certificate = cert\<rparr> = Inr True
           \<longrightarrow> verify env' tree cert = verify env tree cert"
  shows "fst (XmlParser_init env' doc cert (snd (XmlParser_init env doc cert lg))) =
           fst (XmlParser_init env doc cert lg)
         \<and> fst (XmlParser_init env doc cert lg) =
           (case fromstring env doc of
              Inl (LxmlError x) \<Rightarrow> Inl (ValueError ''Could not parse request XML'')
            | Inl e \<Rightarrow> Inl e
            | Inr tree \<Rightarrow>
                (case is_signed env \<lparr>xml_string = doc, xml_tree = tree, certificate = cert\<rparr> of
                   Inl e \<Rightarrow> Inl e
                 | Inr False \<Rightarrow> Inr \<lparr>xml_string = doc, xml_tree = tree, certificate = cert\<rparr>
                 | Inr True \<Rightarrow>
                     (case verify env tree cert of
                        Inl e \<Rightarrow> Inl e
                      | Inr result \<Rightarrow>
                          Inr \<lparr>xml_string = doc, xml_tree = signed_xml result,
                               certificate = cert\<rparr>)))"
proof -
  have "fst (XmlParser_init env' doc cert (snd (XmlParser_init env doc cert lg))) =
      fst (XmlParser_init env doc cert lg)"
  proof (cases "fromstring env doc")
  case (Inl e)
  with assms(1) show ?thesis by (simp add: init_outcome)
next
  case (Inr tree)
  let ?self = "\<lparr>xml_string = doc, xml_tree = tree, certificate = cert\<rparr>"
  from Inr assms(2) have sig: "is_signed env' ?self = is_signed env ?self" by simp
  show ?thesis
  proof (cases "is_signed env ?self = Inr True")
    case True
    with Inr assms(3) have "verify env' tree cert = verify env tree cert" by simp
    with Inr assms(1) sig True show ?thesis by (simp add: init_outcome)
  next
    case False
    with Inr assms(1) sig show ?thesis
      by (simp add: init_outcome split: sum.split bool.split)
  qed
  qed
  then show ?thesis using init_outcome [of env doc cert lg] by (rule conjI)
qed

text \<open>
  With the trusted certificate the two example collaborators answer alike, and a second load
  gives the first one's parser, although it starts from the first one's log.
\<close>

theorem load_twice_same_outcome_witness:
  "fst (XmlParser_init later_env ''<Response>...</Response>'' (Some ''idp.pem'')
         (snd (XmlParser_init example_env ''<Response>...</Response>'' (Some ''idp.pem'') [])))
   = fst (XmlParser_init example_env ''<Response>...</Response>'' (Some ''idp.pem'') [])
   \<and> fst (XmlParser_init example_env ''<Response>...</Response>'' (Some ''idp.pem'') []) =
       Inr \<lparr>xml_string = ''<Response>...</Response>'',
            xml_tree = Element ''Assertion'' [(''ID'', ''a1'')] [],
            certificate = Some ''idp.pem''\<rparr>"
proof -
  have "fst (XmlParser_init later_env ''<Response>...</Response>'' (Some ''idp.pem'')
         (snd (XmlParser_init example_env ''<Response>...</Response>'' (Some ''idp.pem'') [])))
      = fst (XmlParser_init example_env ''<Response>...</Response>'' (Some ''idp.pem'') [])"
    by (rule load_twice_same_outcome [THEN conjunct1])
       (simp_all add: later_env_def example_env_def)
  moreover have "fst (XmlParser_init example_env ''<Response>...</Response>'' (Some ''idp.pem'') []) =
       Inr \<lparr>xml_string = ''<Response>...</Response>'',
            xml_tree = Element ''Assertion'' [(''ID'', ''a1'')] [],
            certificate = Some ''idp.pem''\<rparr>"
    by (simp add: init_outcome example_env_def signed_response_def example_result_def)
  ultimately show ?thesis by simp
qed

text \<open>
  C7 as stated has no such condition. Without a certificate the first example load returns a
  parser; the same string and the same (absent) certificate, loaded when the verifier no
  longer accepts the embedded certificate, raise.
\<close>

theorem load_twice_differs_counterexample:
  "fst (XmlParser_init example_env ''<Response>...</Response>'' None []) =
     Inr \<lparr>xml_string = ''<Response>...</Response>'',
          xml_tree = Element ''Assertion'' [(''ID'', ''a1'')] [], certificate = None\<rparr>
   \<and> fst (XmlParser_init later_env ''<Response>...</Response>'' None
           (snd (XmlParser_init example_env ''<Response>...</Response>'' None []))) =
     Inl (Raised ''InvalidCertificate'')"
  by (simp add: init_outcome later_env_def example_env_def signed_response_def example_result_def)

text \<open>
  C8. \<^verbatim>\<open>get_namespace_map\<close> returns \<^verbatim>\<open>NAMESPACE_MAP\<close> for every parser, so the same table
  for any two of them, and both query methods pass exactly that table to \<^verbatim>\<open>xpath\<close>,
  whatever the parser's document, tree and certificate are.
\<close>

theorem queries_use_namespace_map:
  "get_namespace_map NAMESPACE_MAP self = NAMESPACE_MAP
   \<and> get_namespace_map NAMESPACE_MAP self = get_namespace_map NAMESPACE_MAP other
   \<and> XmlParser_xpath xpath NAMESPACE_MAP self base q = xpath base q NAMESPACE_MAP
   \<and> XmlParser_xpath_xml_tree xpath NAMESPACE_MAP self q = xpath (xml_tree self) q NAMESPACE_MAP"
  by (simp add: get_namespace_map_def XmlParser_xpath_def XmlParser_xpath_xml_tree_def)

subsection \<open>\<^verbatim>\<open>cached_property\<close>\<close>










subsection \<open>UTF-8\<close>

text \<open>Encoding inverts decoding: a decoded string encodes to the octets it came from.\<close>

lemma split2: "l < 0x40 \<Longrightarrow> (h * 0x40 + l) div 0x40 = (h::nat) \<and> (h * 0x40 + l) mod 0x40 = l"
  by simp

lemma split3:
  assumes "m < 0x40" "l < 0x40"
  shows "(h * 0x1000 + m * 0x40 + l) div 0x1000 = (h::nat)"
    and "(h * 0x1000 + m * 0x40 + l) div 0x40 mod 0x40 = m"
    and "(h * 0x1000 + m * 0x40 + l) mod 0x40 = l"
proof -
  have e: "h * 0x1000 + m * 0x40 + l = (h * 0x40 + m) * 0x40 + l" by simp
  show "(h * 0x1000 + m * 0x40 + l) mod 0x40 = l"
    unfolding e using assms(2) split2 by blast
  have d: "(h * 0x1000 + m * 0x40 + l) div 0x40 = h * 0x40 + m"
    unfolding e using assms(2) split2 by blast
  show "(h * 0x1000 + m * 0x40 + l) div 0x40 mod 0x40 = m"
    unfolding d using assms(1) split2 by blast
  have "(h * 0x1000 + m * 0x40 + l) div 0x1000 = (h * 0x1000 + m * 0x40 + l) div 0x40 div 0x40"
    by (simp add: div_mult2_eq)
  also have "\<dots> = (h * 0x40 + m) div 0x40" unfolding d ..
  also have "\<dots> = h" using assms(1) split2 by blast
  finally show "(h * 0x1000 + m * 0x40 + l) div 0x1000 = h" .
qed

lemma split4:
  assumes "m < 0x40" "n < 0x40" "l < 0x40"
  shows "(h * 0x40000 + m * 0x1000 + n * 0x40 + l) div 0x40000 = (h::nat)"
    and "(h * 0x40000 + m * 0x1000 + n * 0x40 + l) div 0x1000 mod 0x40 = m"
    and "(h * 0x40000 + m * 0x1000 + n * 0x40 + l) div 0x40 mod 0x40 = n"
    and "(h * 0x40000 + m * 0x1000 + n * 0x40 + l) mod 0x40 = l"
proof -
  let ?cp = "h * 0x40000 + m * 0x1000 + n * 0x40 + l"
  have e: "?cp = (h * 0x40 + m) * 0x1000 + n * 0x40 + l" by simp
  show "?cp mod 0x40 = l" unfolding e using assms(2,3) by (rule split3)
  show "?cp div 0x40 mod 0x40 = n" unfolding e using assms(2,3) by (rule split3)
  have d: "?cp div 0x1000 = h * 0x40 + m" unfolding e using assms(2,3) by (rule split3)
  show "?cp div 0x1000 mod 0x40 = m" unfolding d using assms(1) split2 by blast
  have "?cp div 0x40000 = ?cp div 0x1000 div 0x40" by (simp add: div_mult2_eq)
  also have "\<dots> = (h * 0x40 + m) div 0x40" unfolding d ..
  also have "\<dots> = h" using assms(1) split2 by blast
  finally show "?cp div 0x40000 = h" .
qed

lemma continuationD: "continuation b \<Longrightarrow> \<exists>l<0x40. b = 0x80 + l"
  unfolding continuation_def by (rule exI [of _ "b - 0x80"]) arith

lemma encode_two:
  assumes "0xC2 \<le> b0" "b0 < 0xE0" "continuation b1"
  shows "encode_code_point ((b0 - 0xC0) * 0x40 + (b1 - 0x80)) = Some [b0, b1]"
proof -
  obtain l where l: "l < 0x40" "b1 = 0x80 + l"
    using continuationD [OF assms(3)] by blast
  define h where "h = b0 - 0xC0"
  have h: "b0 = 0xC0 + h" "2 \<le> h" "h < 0x20"
    using assms(1,2) unfolding h_def by arith+
  have "0x80 \<le> h * 0x40 + l" "h * 0x40 + l < 0x800"
    using h(2,3) l(1) by arith+
  moreover have "(h * 0x40 + l) div 0x40 = h" "(h * 0x40 + l) mod 0x40 = l"
    using l(1) by simp_all
  ultimately show ?thesis
    by (simp add: encode_code_point_def h(1) l(2))
qed

lemma encode_three:
  assumes "0xE0 \<le> b0" "b0 < 0xF0" "second_low b0 \<le> b1" "b1 \<le> second_high b0"
    "continuation b2"
  shows "encode_code_point ((b0 - 0xE0) * 0x1000 + (b1 - 0x80) * 0x40 + (b2 - 0x80))
           = Some [b0, b1, b2]"
proof -
  obtain l where l: "l < 0x40" "b2 = 0x80 + l"
    using continuationD [OF assms(5)] by blast
  define h where "h = b0 - 0xE0"
  define m where "m = b1 - 0x80"
  have h: "b0 = 0xE0 + h" "h < 0x10"
    using assms(1,2) unfolding h_def by arith+
  have m: "b1 = 0x80 + m" "m < 0x40" "h = 0 \<Longrightarrow> 0x20 \<le> m" "h = 0xD \<Longrightarrow> m < 0x20"
    using assms(3,4) h(1) unfolding m_def second_low_def second_high_def
    by (auto split: if_splits)
  let ?cp = "h * 0x1000 + m * 0x40 + l"
  have lo: "0x800 \<le> ?cp"
  proof (cases "h = 0")
    case True with m(3) show ?thesis by simp
  next
    case False then show ?thesis by simp
  qed
  have hi: "?cp < 0x10000" using h(2) m(2) l(1) by arith
  have sur: "\<not> (0xD800 \<le> ?cp \<and> ?cp < 0xE000)"
  proof (cases "h = 0xD")
    case True with m(4) l(1) show ?thesis by simp
  next
    case False
    then consider "h \<le> 0xC" | "0xE \<le> h" by arith
    then show ?thesis
    proof cases
      case 1
      then have "h * 0x1000 \<le> 0xC000" by simp
      with m(2) l(1) show ?thesis by arith
    next
      case 2
      then have "0xE000 \<le> h * 0x1000" by simp
      then show ?thesis by arith
    qed
  qed
  note d = split3 [OF m(2) l(1), of h]
  show ?thesis
    using lo hi sur d
    by (simp add: encode_code_point_def h(1) m(1) l(2))
qed

lemma encode_four:
  assumes "0xF0 \<le> b0" "b0 < 0xF5" "second_low b0 \<le> b1" "b1 \<le> second_high b0"
    "continuation b2" "continuation b3"
  shows "encode_code_point
           ((b0 - 0xF0) * 0x40000 + (b1 - 0x80) * 0x1000 + (b2 - 0x80) * 0x40 + (b3 - 0x80))
           = Some [b0, b1, b2, b3]"
proof -
  obtain n where n: "n < 0x40" "b2 = 0x80 + n"
    using continuationD [OF assms(5)] by blast
  obtain l where l: "l < 0x40" "b3 = 0x80 + l"
    using continuationD [OF assms(6)] by blast
  define h where "h = b0 - 0xF0"
  define m where "m = b1 - 0x80"
  have h: "b0 = 0xF0 + h" "h < 5"
    using assms(1,2) unfolding h_def by arith+
  have m: "b1 = 0x80 + m" "m < 0x40" "h = 0 \<Longrightarrow> 0x10 \<le> m" "h = 4 \<Longrightarrow> m < 0x10"
    using assms(3,4) h(1) unfolding m_def second_low_def second_high_def
    by (auto split: if_splits)
  let ?cp = "h * 0x40000 + m * 0x1000 + n * 0x40 + l"
  have lo: "0x10000 \<le> ?cp"
  proof (cases "h = 0")
    case True with m(3) show ?thesis by simp
  next
    case False then show ?thesis by simp
  qed
  have hi: "?cp < 0x110000"
  proof (cases "h = 4")
    case True with m(4) n(1) l(1) show ?thesis by simp
  next
    case False
    with h(2) have "h \<le> 3" by arith
    then have "h * 0x40000 \<le> 0xC0000" by simp
    with m(2) n(1) l(1) show ?thesis by arith
  qed
  note d = split4 [OF m(2) n(1) l(1), of h]
  show ?thesis
    using lo hi d
    by (simp add: encode_code_point_def h(1) m(1) n(2) l(2))
qed

lemma utf8_round_trip: "utf8_decode bs = Some cps \<Longrightarrow> utf8_encode cps = Some bs"
proof (induction bs arbitrary: cps rule: utf8_decode.induct)
  case 1
  then show ?case by simp
next
  case (2 b0 bs)
  consider (one) "b0 < 0x80" | (bad) "0x80 \<le> b0" "b0 < 0xC2" | (two) "0xC2 \<le> b0" "b0 < 0xE0"
    | (three) "0xE0 \<le> b0" "b0 < 0xF0" | (four) "0xF0 \<le> b0" "b0 < 0xF5" | (high) "0xF5 \<le> b0"
    by arith
  then show ?case
  proof cases
    case one
    with "2.prems" obtain r where r: "utf8_decode bs = Some r" "cps = b0 # r" by auto
    from "2.IH"(1) [OF one r(1)] one r(2) show ?thesis
      by (simp add: encode_code_point_def)
  next
    case bad
    with "2.prems" show ?thesis by simp
  next
    case two
    with "2.prems" obtain b1 rest r where
      s: "bs = b1 # rest" "continuation b1" "utf8_decode rest = Some r"
         "cps = ((b0 - 0xC0) * 0x40 + (b1 - 0x80)) # r"
      by (auto split: list.splits if_splits)
    have "utf8_encode r = Some rest"
      using "2.IH"(2) [of b1 rest r] two s by simp
    with encode_two [OF two s(2)] s show ?thesis by simp
  next
    case three
    with "2.prems" obtain b1 b2 rest r where
      s: "bs = b1 # b2 # rest" "second_low b0 \<le> b1" "b1 \<le> second_high b0" "continuation b2"
         "utf8_decode rest = Some r"
         "cps = ((b0 - 0xE0) * 0x1000 + (b1 - 0x80) * 0x40 + (b2 - 0x80)) # r"
      by (auto split: list.splits if_splits)
    have "utf8_encode r = Some rest"
      using "2.IH"(3) [of b1 "b2 # rest" b2 rest r] three s by simp
    with encode_three [OF three s(2,3,4)] s show ?thesis by simp
  next
    case four
    with "2.prems" obtain b1 b2 b3 rest r where
      s: "bs = b1 # b2 # b3 # rest" "second_low b0 \<le> b1" "b1 \<le> second_high b0"
         "continuation b2" "continuation b3" "utf8_decode rest = Some r"
         "cps = ((b0 - 0xF0) * 0x40000 + (b1 - 0x80) * 0x1000 + (b2 - 0x80) * 0x40 + (b3 - 0x80)) # r"
      by (auto split: list.splits if_splits)
    have "utf8_encode r = Some rest"
      using "2.IH"(4) [of b1 "b2 # b3 # rest" b2 "b3 # rest" b3 rest r] four s by simp
    with encode_four [OF four s(2,3,4,5)] s show ?thesis by simp
  next
    case high
    with "2.prems" show ?thesis by simp
  qed
qed

lemma utf8_decode_ascii: "\<forall>b\<in>set bs. b < 0x80 \<Longrightarrow> utf8_decode bs = Some bs"
  by (induction bs) simp_all

lemma utf8_encode_ascii: "\<forall>c\<in>set cs. c < 0x80 \<Longrightarrow> utf8_encode cs = Some cs"
  by (induction cs) (simp_all add: encode_code_point_def)

lemma ascii_octets:
  fixes b :: bytes
  assumes "\<forall>w\<in>set b. w < 0x80"
  shows "\<forall>n\<in>set (map unat b). n < 0x80"
  using assms by (auto simp: word_less_nat_alt)

lemma bytes_decode_ascii:
  fixes b :: bytes
  assumes "\<forall>w\<in>set b. w < 0x80"
  shows "bytes_decode b = (Inr (map unat b) :: 'x exception + str)"
  using utf8_decode_ascii [OF ascii_octets [OF assms]] by (simp add: bytes_decode_def)

lemma bytes_round_trip:
  fixes b :: bytes
  assumes "bytes_decode b = (Inr s :: 'x exception + str)"
  shows "str_encode s = (Inr b :: 'x exception + bytes)"
proof -
  have "utf8_decode (map unat b) = Some s"
    using assms by (simp add: bytes_decode_def split: option.splits)
  then have "utf8_encode s = Some (map unat b)" by (rule utf8_round_trip)
  moreover have "map (of_nat \<circ> unat) b = b" by (induction b) simp_all
  ultimately show ?thesis by (simp add: str_encode_def)
qed

subsection \<open>Certificates\<close>

text \<open>
  Whatever the library is: a string that \<^verbatim>\<open>certificate_to_string\<close> returned is handed
  back to the loader as the very octets the library had produced.
\<close>

lemma certificate_from_string_of_to_string:
  fixes lib :: "('cert, 'x) x509"
  assumes "certificate_to_string lib cert = Inr s"
  shows "certificate_from_string lib s format =
           load_pem_x509_certificate lib (public_bytes lib cert PEM)"
  using bytes_round_trip [of "public_bytes lib cert PEM" s, where ?'x = 'x] assms
  by (simp add: certificate_to_string_def certificate_from_string_def)

text \<open>
  C10. \<^verbatim>\<open>certificate_from_string(certificate_to_string(c))\<close> returns \<open>c\<close>. The two library
  calls are parameters; what is used of them is the library's contract: the PEM encoding of
  a certificate is ASCII text, and the PEM loader reads a certificate back from its own PEM
  encoding. The \<^verbatim>\<open>format\<close> argument makes no difference.
\<close>

theorem certificate_string_round_trip:
  fixes lib :: "('cert, 'x) x509"
  assumes "load_pem_x509_certificate lib (public_bytes lib cert PEM) = Inr cert"
    and "\<forall>w\<in>set (public_bytes lib cert PEM). w < 0x80"
  shows "(case certificate_to_string lib cert of
            Inl e \<Rightarrow> Inl e
          | Inr s \<Rightarrow> certificate_from_string lib s format) = Inr cert"
proof -
  have "certificate_to_string lib cert = Inr (map unat (public_bytes lib cert PEM))"
    using bytes_decode_ascii [OF assms(2), where ?'x = 'x]
    by (simp add: certificate_to_string_def)
  with certificate_from_string_of_to_string [OF this, of format] assms(1)
  show ?thesis by simp
qed

theorem certificate_string_round_trip_witness:
  "load_pem_x509_certificate example_x509 (public_bytes example_x509 3 PEM) = Inr 3
   \<and> public_bytes example_x509 3 PEM = [0x4D, 0x4D, 0x4D]
   \<and> certificate_to_string example_x509 3 = Inr [0x4D, 0x4D, 0x4D]
   \<and> certificate_from_string example_x509 [0x4D, 0x4D, 0x4D] PEM = Inr 3"
proof -
  have inv: "load_pem_x509_certificate example_x509 (public_bytes example_x509 3 PEM) = Inr 3"
    by (simp add: example_x509_def)
  have ascii: "\<forall>w\<in>set (public_bytes example_x509 3 PEM). w < 0x80"
    by (simp add: example_x509_def)
  have to: "certificate_to_string example_x509 3 = (Inr [0x4D, 0x4D, 0x4D] :: string exception + str)"
    by (simp add: example_x509_def certificate_to_string_def bytes_decode_def numeral_3_eq_3)
  from certificate_string_round_trip [OF inv ascii, of PEM] to
  have "certificate_from_string example_x509 [0x4D, 0x4D, 0x4D] PEM = Inr 3" by simp
  moreover have "public_bytes example_x509 3 PEM = [0x4D, 0x4D, 0x4D]"
    by (simp add: example_x509_def numeral_3_eq_3)
  ultimately show ?thesis using inv to by simp
qed

end
